theory Spec2Isabelle
  imports Complex_Main "HOL-Library.AList"
begin

section \<open>The rate-limited fetch client\<close>

subsection \<open>JavaScript numbers\<close>

text \<open>
  The numbers of \<open>processRatelimitHeaders\<close> are IEEE 754 doubles. All of them come from
  \<open>parseInt\<close>, \<open>Date.now()\<close> and integer constants by \<open>*\<close>, \<open>-\<close> and \<open>+\<close>, so each is NaN, an
  infinity, or an integer that a double can hold. An integer with more than 53 significant
  bits is rounded to the nearest such integer, ties to the even mantissa, and a magnitude of
  \<open>2 ^ 1024\<close> or more after rounding is an infinity.
\<close>

datatype number = NaN | Num int | Infinity | NegInfinity

fun bitlen :: "nat \<Rightarrow> nat" where
  "bitlen n = (if n = 0 then 0 else Suc (bitlen (n div 2)))"

declare bitlen.simps [simp del]

definition round_to_double :: "nat \<Rightarrow> nat" where
  "round_to_double v =
     (let b = bitlen v in
      if b \<le> 53 then v
      else
        (let e = b - 53; q = v div 2 ^ e; r = v mod 2 ^ e; half = 2 ^ (e - 1)
         in (if half < r \<or> (r = half \<and> odd q) then q + 1 else q) * 2 ^ e))"

definition number_of_int :: "int \<Rightarrow> number" where
  "number_of_int x =
     (let m = round_to_double (nat \<bar>x\<bar>) in
      if 2 ^ 1024 \<le> m then (if x < 0 then NegInfinity else Infinity)
      else Num (if x < 0 then - int m else int m))"

text \<open>
  \<open>x * k\<close>, \<open>x + k\<close> and \<open>x - k\<close> for a double \<open>x\<close> and an integer \<open>k\<close> that is a double itself
  (a constant of the source, or a reading of \<open>Date.now()\<close>): the exact result, rounded.
\<close>

fun num_times :: "number \<Rightarrow> int \<Rightarrow> number" where
  "num_times NaN k = NaN"
| "num_times (Num a) k = number_of_int (a * k)"
| "num_times Infinity k = (if 0 < k then Infinity else if k < 0 then NegInfinity else NaN)"
| "num_times NegInfinity k = (if 0 < k then NegInfinity else if k < 0 then Infinity else NaN)"

fun num_plus :: "number \<Rightarrow> int \<Rightarrow> number" where
  "num_plus NaN k = NaN"
| "num_plus (Num a) k = number_of_int (a + k)"
| "num_plus Infinity k = Infinity"
| "num_plus NegInfinity k = NegInfinity"

definition num_minus :: "number \<Rightarrow> int \<Rightarrow> number" where
  "num_minus x k = num_plus x (- k)"

text \<open>\<open>x <= k\<close> and \<open>x > k\<close>; every comparison with NaN is false.\<close>

fun num_le :: "number \<Rightarrow> int \<Rightarrow> bool" where
  "num_le NaN k = False"
| "num_le (Num a) k = (a \<le> k)"
| "num_le Infinity k = False"
| "num_le NegInfinity k = True"

fun num_gt :: "number \<Rightarrow> int \<Rightarrow> bool" where
  "num_gt NaN k = False"
| "num_gt (Num a) k = (k < a)"
| "num_gt Infinity k = True"
| "num_gt NegInfinity k = False"

definition isNaN :: "number \<Rightarrow> bool" where
  "isNaN x = (x = NaN)"

subsection \<open>JavaScript's parseInt\<close>

text \<open>
  \<open>processRatelimitHeaders\<close> reads two header values with the built-in \<open>parseInt\<close>
  (no radix argument). The built-in skips leading white space, reads an optional sign, switches
  to base 16 after a \<open>0x\<close> / \<open>0X\<close> prefix, and reads the longest prefix of digits; with no
  digit at all the result is NaN, otherwise it is the double nearest to the integer read.

  A header value is a byte string (each character of the JavaScript string is below 256), so
  \<open>char\<close> is its character type. The white space of \<open>parseInt\<close> below 256 is tab, line feed,
  vertical tab, form feed, carriage return, space and the no-break space U+00A0.
\<close>

definition isWhiteSpace :: "char \<Rightarrow> bool" where
  "isWhiteSpace c =
     (c \<in> set [CHR 0x09, CHR 0x0A, CHR 0x0B, CHR 0x0C, CHR 0x0D, CHR 0x20, CHR 0xA0])"

definition digitValue :: "char \<Rightarrow> nat option" where
  "digitValue c =
     (let n = (of_char c :: nat) in
      if 48 \<le> n \<and> n \<le> 57 then Some (n - 48)
      else if 97 \<le> n \<and> n \<le> 122 then Some (n - 87)
      else if 65 \<le> n \<and> n \<le> 90 then Some (n - 55)
      else None)"

fun readDigits :: "nat \<Rightarrow> string \<Rightarrow> nat option \<Rightarrow> nat option" where
  "readDigits radix [] acc = acc"
| "readDigits radix (c # cs) acc =
     (case digitValue c of
        None \<Rightarrow> acc
      | Some d \<Rightarrow>
          if d < radix
          then readDigits radix cs (Some ((case acc of None \<Rightarrow> 0 | Some a \<Rightarrow> a) * radix + d))
          else acc)"

definition parseInt :: "string \<Rightarrow> number" where
  "parseInt s =
     (let s1 = dropWhile isWhiteSpace s;
          neg = (case s1 of c # _ \<Rightarrow> c = CHR ''-'' | [] \<Rightarrow> False);
          s2 = (case s1 of c # cs \<Rightarrow> if c = CHR ''-'' \<or> c = CHR ''+'' then cs else s1 | [] \<Rightarrow> s1);
          hex = (case s2 of a # b # _ \<Rightarrow> a = CHR ''0'' \<and> (b = CHR ''x'' \<or> b = CHR ''X'') | _ \<Rightarrow> False);
          s3 = (if hex then drop 2 s2 else s2)
      in case readDigits (if hex then 16 else 10) s3 None of
           None \<Rightarrow> NaN
         | Some v \<Rightarrow> number_of_int (if neg then - int v else int v))"

subsection \<open>processRatelimitHeaders\<close>

text \<open>
  A \<open>HeadersObject\<close> maps header names to strings. Reading a header that is not there
  gives \<open>undefined\<close>; the source's test \<open>!remainingHeader\<close> holds for \<open>undefined\<close> and for
  the empty string alike.
\<close>

type_synonym HeadersObject = "(string \<times> string) list"

definition header :: "HeadersObject \<Rightarrow> string \<Rightarrow> string option" where
  "header headers k = map_of headers k"

definition falsy_header :: "string option \<Rightarrow> bool" where
  "falsy_header h = (case h of None \<Rightarrow> True | Some s \<Rightarrow> s = [])"

text \<open>
  \<open>processRatelimitHeaders headers url onRatelimit\<close> calls \<open>onRatelimit\<close> at most once.
  The model returns the argument of that call (\<open>Some waitTime\<close>) or \<open>None\<close> when there is no
  call. \<open>now\<close> is the reading of \<open>Date.now()\<close>, in milliseconds.
\<close>

definition processRatelimitHeaders :: "HeadersObject \<Rightarrow> int \<Rightarrow> number option" where
  "processRatelimitHeaders headers now =
     (let remainingHeader = header headers ''ratelimit-remaining'';
          resetHeader = header headers ''ratelimit-reset''
      in if falsy_header remainingHeader \<or> falsy_header resetHeader then None
         else
           let ratelimitRemaining = parseInt (the remainingHeader) in
           if isNaN ratelimitRemaining \<or> num_le ratelimitRemaining 1
           then (let ratelimitReset = num_times (parseInt (the resetHeader)) 1000 in
                 if isNaN ratelimitReset then None
                 else
                   let waitTime = num_plus (num_minus ratelimitReset now) 1000
                   in if num_gt waitTime 0 then Some waitTime else None)
           else None)"

subsection \<open>WrappedRPC.request\<close>

text \<open>
  What \<open>super.request\<close> can do: resolve with a response, or reject with an \<open>XRPCError\<close>
  (status, kind, headers), with a \<open>TypeError\<close> (what \<open>fetch\<close> rejects with when the network
  fails: no connection, connection reset), or with anything else (given by its name).
\<close>

datatype error =
    XRPCError (status: nat) (kind: string) (err_headers: HeadersObject)
  | TypeError
  | OtherError string

text \<open>
  The property \<open>name\<close> of an error. The class \<open>XRPCError\<close> of the client library sets it to
  \<open>XRPCError\<close> for every instance; the error name of the protocol (\<open>RepoNotFound\<close> and the
  like) is the property \<open>kind\<close>.
\<close>

fun name :: "error \<Rightarrow> string" where
  "name (XRPCError st k hs) = ''XRPCError''"
| "name TypeError = ''TypeError''"
| "name (OtherError n) = n"

record XRPCResponse =
  headers :: HeadersObject
  data :: "nat list"

text \<open>An effect of a request: a call of \<open>super.request\<close> with its attempt number, or a call of \<open>sleep\<close> with its argument.\<close>

datatype event = Attempt nat | Sleep number

definition backoffs :: "int list" where
  "backoffs = [1000, 5000, 15000, 30000, 60000, 120000, 300000]"

text \<open>\<open>backoffs[attempt] || 60000\<close>: an index past the end reads \<open>undefined\<close>, a zero entry is falsy.\<close>

definition backoff_or_default :: "nat \<Rightarrow> int" where
  "backoff_or_default attempt =
     (if attempt < length backoffs \<and> backoffs ! attempt \<noteq> 0 then backoffs ! attempt else 60000)"

definition ratelimit_sleep :: "HeadersObject \<Rightarrow> int \<Rightarrow> event list" where
  "ratelimit_sleep hs now = (case processRatelimitHeaders hs now of None \<Rightarrow> [] | Some w \<Rightarrow> [Sleep w])"

text \<open>
  The network is a parameter: \<open>net n\<close> is what \<open>super.request\<close> does in the call with attempt
  number \<open>n\<close>, and \<open>clock n\<close> is what \<open>Date.now()\<close> reads when the headers of that attempt are
  processed. The result is the list of effects in order (calls of \<open>super.request\<close> and sleeps)
  and what the caller gets: the response, or the error thrown.
\<close>

function request ::
  "(nat \<Rightarrow> error + XRPCResponse) \<Rightarrow> (nat \<Rightarrow> int) \<Rightarrow> nat \<Rightarrow> event list \<times> (error + XRPCResponse)"
where
  "request net clock attempt =
     (case net attempt of
        Inr res \<Rightarrow> (Attempt attempt # ratelimit_sleep (headers res) (clock attempt), Inr res)
      | Inl err \<Rightarrow>
          if attempt > 6 then ([Attempt attempt], Inl err)
          else (case err of
                  XRPCError st k hs \<Rightarrow>
                    if st = 429
                    then (let (evs, r) = request net clock (attempt + 1)
                          in (Attempt attempt # ratelimit_sleep hs (clock attempt) @ evs, r))
                    else ([Attempt attempt], Inl err)
                | TypeError \<Rightarrow> ([Attempt attempt], Inl err)
                | OtherError _ \<Rightarrow>
                    (let (evs, r) = request net clock (attempt + 1)
                     in (Attempt attempt # Sleep (Num (backoff_or_default attempt)) # evs, r))))"
  by pat_completeness auto
termination
  by (relation "measure (\<lambda>(net, clock, attempt). 7 - attempt)") auto

declare request.simps [simp del]



section \<open>Shared stores: snapshot directory, job queue, seen-set\<close>

text \<open>
  The supervisor's fetch scheduler and the repo workers share the snapshot directory
  (\<open>REPOS_DIR\<close>, one file per DID, so a path is identified with its DID), the bee-queue
  \<open>repo-processing\<close> (jobs carry their DID as id) and the Redis set \<open>backfill:seen\<close>.
  \<open>unlinks\<close> logs the calls of \<open>fs.unlink\<close> in order.
\<close>

record store =
  files :: "string \<rightharpoonup> nat list"
  jobs :: "string list"
  seen :: "string set"
  unlinks :: "string list"

text \<open>\<open>queue.createJob({ did }).setId(did).save()\<close>: a job whose id is already queued is not added again.\<close>

definition save_job :: "string \<Rightarrow> string list \<Rightarrow> string list" where
  "save_job did js = (if did \<in> set js then js else js @ [did])"

subsection \<open>queueRepo\<close>

text \<open>
  \<open>rpc.get\<close> runs \<open>WrappedRPC.request\<close> with the default \<open>attempt = 0\<close>. \<open>write_ok\<close> and
  \<open>save_ok\<close> say whether \<open>Bun.write\<close> and the queue's \<open>save\<close> succeed; when one of them throws,
  the \<open>catch\<close> block sees an error that is no \<open>XRPCError\<close>.
\<close>

definition terminal_names :: "string list" where
  "terminal_names = [''RepoDeactivated'', ''RepoTakendown'', ''RepoNotFound'']"

definition queueRepo ::
  "(nat \<Rightarrow> error + XRPCResponse) \<Rightarrow> (nat \<Rightarrow> int) \<Rightarrow> bool \<Rightarrow> bool \<Rightarrow> string \<Rightarrow> store \<Rightarrow> store"
where
  "queueRepo net clock write_ok save_ok did st =
     (case snd (request net clock 0) of
        Inr res \<Rightarrow>
          if data res \<noteq> []
          then (if write_ok
                then (let st1 = st\<lparr>files := (files st)(did \<mapsto> data res)\<rparr>
                      in if save_ok then st1\<lparr>jobs := save_job did (jobs st1)\<rparr> else st1)
                else st)
          else st
      | Inl err \<Rightarrow>
          (case err of
             XRPCError _ _ _ \<Rightarrow>
               if name err \<in> set terminal_names then st\<lparr>seen := insert did (seen st)\<rparr> else st
           | TypeError \<Rightarrow> st
           | OtherError _ \<Rightarrow> st))"

section \<open>The repo worker\<close>

datatype json =
    JNull | JBool bool | JNum int | JStr string | JArr "json list" | JObj "(string \<times> json) list"

text \<open>
  \<open>timestamp\<close> is the number of milliseconds that the source renders with
  \<open>new Date(indexedAt).toISOString()\<close>.
\<close>

record CommitData =
  uri :: string
  cid :: string
  timestamp :: int
  obj :: json

text \<open>
  A message as it crosses the process boundary. TypeScript's \<open>CommitMessage\<close> type is erased at
  run time and the supervisor checks the fields itself, so each of them may be missing.
\<close>

record WorkerMessage =
  msg_type :: "string option"
  collection :: "string option"
  commits :: "CommitData list option"

text \<open>What \<open>iterateAtpRepo\<close> yields for one record of the repository.\<close>

record repo_entry =
  entry_record :: json
  entry_rkey :: string
  entry_collection :: string
  entry_cid :: string

text \<open>
  \<open>commitData\<close> is a plain object, created as \<open>{}\<close>: its own properties, from collection to
  the list of records, in the order in which they were created.
\<close>

type_synonym commit_buffers = "(string \<times> CommitData list) list"

text \<open>
  Reading \<open>commitData[collection]\<close> for a name that \<open>Object.prototype\<close> defines gives the
  inherited member, which is neither \<open>null\<close> nor \<open>undefined\<close> and has no \<open>push\<close>.
\<close>

definition object_prototype_members :: "string list" where
  "object_prototype_members =
     [''constructor'', ''hasOwnProperty'', ''isPrototypeOf'', ''propertyIsEnumerable'',
      ''toLocaleString'', ''toString'', ''valueOf'', ''__proto__'', ''__defineGetter__'',
      ''__defineSetter__'', ''__lookupGetter__'', ''__lookupSetter__'']"

fun own_push :: "string \<Rightarrow> CommitData \<Rightarrow> commit_buffers \<Rightarrow> commit_buffers" where
  "own_push c d [] = [(c, [d])]"
| "own_push c d ((k, v) # rest) =
     (if k = c then (k, v @ [d]) # rest else (k, v) # own_push c d rest)"

text \<open>
  \<open>(commitData[collection] ??= []).push(data)\<close>: \<open>None\<close> when the call throws, which it does
  for the names of \<open>Object.prototype\<close>; these never become own properties.
\<close>

definition push_commit :: "string \<Rightarrow> CommitData \<Rightarrow> commit_buffers \<Rightarrow> commit_buffers option" where
  "push_commit c d buf =
     (if c \<in> set object_prototype_members then None else Some (own_push c d buf))"

text \<open>
  \<open>Object.entries\<close> lists the own properties whose names are array indices first (the
  canonical decimal numerals below \<open>2 ^ 32 - 1\<close>), by ascending value, and then the others
  in order of creation.
\<close>

definition decimal_value :: "string \<Rightarrow> nat" where
  "decimal_value k = foldl (\<lambda>a c. a * 10 + (of_char c - 48)) 0 k"

definition array_index :: "string \<Rightarrow> nat option" where
  "array_index k =
     (if k \<noteq> [] \<and> list_all (\<lambda>c. 48 \<le> (of_char c :: nat) \<and> (of_char c :: nat) \<le> 57) k
         \<and> (if hd k = CHR ''0'' then k = ''0'' else True)
         \<and> decimal_value k < 4294967295
      then Some (decimal_value k) else None)"

definition Object_entries :: "(string \<times> 'a) list \<Rightarrow> (string \<times> 'a) list" where
  "Object_entries props =
     sort_key (\<lambda>(k, v). the (array_index k)) (filter (\<lambda>(k, v). array_index k \<noteq> None) props)
       @ filter (\<lambda>(k, v). array_index k = None) props"

subsection \<open>The timestamp of a decoded record\<close>

text \<open>
  The libraries are parameters: \<open>parseDate s\<close> is \<open>new Date(s).getTime()\<close> (\<open>None\<close> for NaN) and
  \<open>parseTID rkey\<close> is \<open>parseTID(rkey).timestamp\<close> (\<open>None\<close> when it throws). Both give integers
  that a double holds exactly, and the source only compares and copies them.

  \<open>createdAt_time\<close> is the initialiser of \<open>indexedAt\<close>: the chain of \<open>&&\<close> ends in \<open>false\<close>,
  in NaN or in the parsed time, and \<open>|| 0\<close> turns every falsy value into 0.
\<close>

definition createdAt_time :: "(string \<Rightarrow> int option) \<Rightarrow> json \<Rightarrow> int" where
  "createdAt_time parseDate record =
     (case record of
        JObj kvs \<Rightarrow>
          (case map_of kvs ''createdAt'' of
             Some (JStr s) \<Rightarrow> (case parseDate s of Some t \<Rightarrow> t | None \<Rightarrow> 0)
           | _ \<Rightarrow> 0)
      | _ \<Rightarrow> 0)"

definition indexedAt ::
  "(string \<Rightarrow> int option) \<Rightarrow> (string \<Rightarrow> int option) \<Rightarrow> int \<Rightarrow> json \<Rightarrow> string \<Rightarrow> int"
where
  "indexedAt parseDate parseTID now record rkey =
     (let t0 = createdAt_time parseDate record;
          t1 = (if t0 = 0 then (case parseTID rkey of Some t \<Rightarrow> t | None \<Rightarrow> now) else t0)
      in if t1 > now then now else t1)"

definition decode_entry ::
  "(string \<Rightarrow> int option) \<Rightarrow> (string \<Rightarrow> int option) \<Rightarrow> int \<Rightarrow> string \<Rightarrow> repo_entry \<Rightarrow> CommitData"
where
  "decode_entry parseDate parseTID now did e =
     \<lparr>uri = ''at://'' @ did @ ''/'' @ entry_collection e @ ''/'' @ entry_rkey e,
      cid = entry_cid e,
      timestamp = indexedAt parseDate parseTID now (entry_record e) (entry_rkey e),
      obj = entry_record e\<rparr>"

subsection \<open>queue.process\<close>

text \<open>
  \<open>iterateAtpRepo bytes\<close> gives the entries the iterator yields and whether it then finishes
  (\<open>True\<close>) or throws (\<open>False\<close>); \<open>sAdd_ok\<close> says whether \<open>redis.sAdd\<close> succeeds.
\<close>

record externals =
  parseDate :: "string \<Rightarrow> int option"
  parseTID :: "string \<Rightarrow> int option"
  iterateAtpRepo :: "nat list \<Rightarrow> repo_entry list \<times> bool"
  sAdd_ok :: bool

datatype job_error = NotAWorkerProcess | ENOENT

text \<open>\<open>fs.unlink\<close> rejects when the file is not there.\<close>

definition unlink :: "string \<Rightarrow> store \<Rightarrow> job_error + store" where
  "unlink p st =
     (if files st p = None then Inl ENOENT
      else Inr (st\<lparr>files := (files st)(p := None), unlinks := unlinks st @ [p]\<rparr>))"

text \<open>
  The body of the \<open>for await\<close> loop, entry by entry: the buffers afterwards, and whether the
  loop got through all entries (\<open>True\<close>) or a \<open>push\<close> threw (\<open>False\<close>), which ends the loop.
\<close>

fun push_entries ::
  "(repo_entry \<Rightarrow> CommitData) \<Rightarrow> repo_entry list \<Rightarrow> commit_buffers \<Rightarrow> commit_buffers \<times> bool"
where
  "push_entries f [] buf = (buf, True)"
| "push_entries f (e # es) buf =
     (case push_commit (entry_collection e) (f e) buf of
        None \<Rightarrow> (buf, False)
      | Some buf' \<Rightarrow> push_entries f es buf')"

text \<open>
  One run of the job handler: \<open>has_send\<close> is \<open>process.send\<close> being defined, \<open>did\<close> is
  \<open>job.data.did\<close> when it is a string. The result is the error the handler rejects with, or the
  stores and the buffers afterwards.
\<close>

definition process_job ::
  "externals \<Rightarrow> bool \<Rightarrow> int \<Rightarrow> string option \<Rightarrow> store \<times> commit_buffers
     \<Rightarrow> job_error + store \<times> commit_buffers"
where
  "process_job ext has_send now job_did w =
     (let (st, commitData) = w in
      if \<not> has_send then Inl NotAWorkerProcess
      else case job_did of
        None \<Rightarrow> Inr w
      | Some did \<Rightarrow>
          if did = [] then Inr w
          else (case files st did of
                  None \<Rightarrow> Inr w
                | Some repo \<Rightarrow>
                    if repo = [] then Inr w
                    else
                      (let (entries, finished) = iterateAtpRepo ext repo;
                           (commitData', pushed) =
                             push_entries (decode_entry (parseDate ext) (parseTID ext) now did)
                               entries commitData;
                           st' = (if pushed \<and> finished \<and> sAdd_ok ext
                                  then st\<lparr>seen := insert did (seen st)\<rparr> else st)
                       in case unlink did st' of
                            Inl err \<Rightarrow> Inl err
                          | Inr st'' \<Rightarrow> Inr (st'', commitData'))))"

subsection \<open>sendCommits\<close>

text \<open>
  One tick of the 200 ms timer: one message per entry of \<open>Object.entries(commitData)\<close>, in
  that order. The result is the messages sent and \<open>commitData\<close> after the tick; the source
  assigns nothing to it.
\<close>

definition sendCommits :: "commit_buffers \<Rightarrow> WorkerMessage list \<times> commit_buffers" where
  "sendCommits commitData =
     (map (\<lambda>(c, cs). \<lparr>msg_type = Some ''commit'', collection = Some c, commits = Some cs\<rparr>)
        (Object_entries commitData),
      commitData)"


section \<open>The supervisor\<close>

subsection \<open>Bookkeeping\<close>

text \<open>
  The environment a worker is forked with decides its role: \<open>WORKER_KIND\<close> and, for a
  write-collection worker, \<open>WORKER_INDEX\<close>. \<open>cluster.fork()\<close> without an environment gives
  \<open>NoEnv\<close>.
\<close>

datatype worker_env = RepoEnv | WriteCollectionEnv nat | WriteRecordEnv | NoEnv

text \<open>
  \<open>cluster_workers\<close> is \<open>cluster.workers\<close>: the live workers by cluster id, each with its
  process id and environment. The cluster numbers its workers with a counter (\<open>next_id\<close>); the
  operating system hands out process ids, here from the counter \<open>next_pid\<close>. The other fields
  are the supervisor's tables: \<open>workers.repo\<close> (its keys), \<open>workers.writeCollection\<close> (process
  id to slot index), \<open>workers.writeRecord\<close> and \<open>workers.writeRecord2\<close> (each a pair of process
  id and cluster id) and the map \<open>collectionToWriteWorkerId\<close>.
\<close>

record supervisor =
  cluster_workers :: "(nat \<times> nat \<times> worker_env) list"
  next_id :: nat
  next_pid :: nat
  workers_repo :: "nat list"
  workers_writeCollection :: "(nat \<times> nat) list"
  writeRecord :: "nat \<times> nat"
  writeRecord2 :: "nat \<times> nat"
  collectionToWriteWorkerId :: "(string \<times> nat) list"

datatype sup_error =
    WorkerProcessNotFound
  | UnknownWorkerKind nat
  | InvalidWorkerMessage
  | NotIterable
  | SendOnUndefined

definition and_then :: "'e + 'a \<Rightarrow> ('a \<Rightarrow> 'e + 'b) \<Rightarrow> 'e + 'b" where
  "and_then r f = (case r of Inl e \<Rightarrow> Inl e | Inr x \<Rightarrow> f x)"

text \<open>\<open>cluster.fork(env)\<close> returns the new worker: its cluster id and its process id.\<close>

definition fork :: "worker_env \<Rightarrow> supervisor \<Rightarrow> (nat \<times> nat) \<times> supervisor" where
  "fork env s =
     ((next_id s, next_pid s),
      s\<lparr>cluster_workers := cluster_workers s @ [(next_id s, next_pid s, env)],
        next_id := Suc (next_id s),
        next_pid := Suc (next_pid s)\<rparr>)"

text \<open>\<open>cluster.workers?.[id]?.kill()\<close>: a live worker with that id is terminated, otherwise nothing happens.\<close>

definition kill :: "nat \<Rightarrow> supervisor \<Rightarrow> supervisor" where
  "kill wid s = s\<lparr>cluster_workers := filter (\<lambda>(i, _). i \<noteq> wid) (cluster_workers s)\<rparr>"

subsection \<open>Spawning\<close>

text \<open>
  \<open>writeWorkerAllocations\<close> comes from a module outside this development and is a parameter
  \<open>alloc\<close>: the collections of each slot. Iterating \<open>writeWorkerAllocations[i]\<close> for a slot that
  is not in the table throws.
\<close>

definition spawnWriteCollectionWorker ::
  "string list list \<Rightarrow> nat \<Rightarrow> supervisor \<Rightarrow> sup_error + supervisor"
where
  "spawnWriteCollectionWorker alloc i s =
     (let ((wid, pid), s1) = fork (WriteCollectionEnv i) s in
      if pid = 0 then Inl WorkerProcessNotFound
      else if \<not> i < length alloc then Inl NotIterable
      else Inr (s1\<lparr>workers_writeCollection := AList.update pid i (workers_writeCollection s1),
                   collectionToWriteWorkerId :=
                     fold (\<lambda>c m. AList.update c wid m) (alloc ! i) (collectionToWriteWorkerId s1)\<rparr>))"

definition spawnWriteRecordWorker :: "supervisor \<Rightarrow> sup_error + supervisor" where
  "spawnWriteRecordWorker s =
     (let ((wid, pid), s1) = fork WriteRecordEnv s in
      if pid = 0 then Inl WorkerProcessNotFound
      else
        let s2 = s1\<lparr>writeRecord := (pid, wid)\<rparr>;
            ((wid2, pid2), s3) = fork WriteRecordEnv s2
        in if pid2 = 0 then Inl WorkerProcessNotFound
           else Inr (s3\<lparr>writeRecord2 := (pid2, wid2)\<rparr>))"

definition spawnRepoWorker :: "supervisor \<Rightarrow> sup_error + supervisor" where
  "spawnRepoWorker s =
     (let ((wid, pid), s1) = fork RepoEnv s in
      if pid = 0 then Inl WorkerProcessNotFound
      else Inr (s1\<lparr>workers_repo := List.insert pid (workers_repo s1)\<rparr>))"

fun spawnRepoWorkers :: "nat \<Rightarrow> supervisor \<Rightarrow> sup_error + supervisor" where
  "spawnRepoWorkers 0 s = Inr s"
| "spawnRepoWorkers (Suc n) s = and_then (spawnRepoWorker s) (spawnRepoWorkers n)"

text \<open>
  The supervisor's start: three write-collection workers (slots 0, 1, 2), the pair of
  write-record workers, and one repo worker for each \<open>i\<close> from 3 up to \<open>numCPUs * 3\<close>.
\<close>

definition startup :: "string list list \<Rightarrow> nat \<Rightarrow> nat \<Rightarrow> sup_error + supervisor" where
  "startup alloc numCPUs first_pid =
     and_then (spawnWriteCollectionWorker alloc 0
                 \<lparr>cluster_workers = [], next_id = 1, next_pid = first_pid, workers_repo = [],
                  workers_writeCollection = [], writeRecord = (0, 0), writeRecord2 = (0, 0),
                  collectionToWriteWorkerId = []\<rparr>)
       (\<lambda>s. and_then (spawnWriteCollectionWorker alloc 1 s)
         (\<lambda>s. and_then (spawnWriteCollectionWorker alloc 2 s)
           (\<lambda>s. and_then (if fst (writeRecord s) = 0 then spawnWriteRecordWorker s else Inr s)
             (spawnRepoWorkers (numCPUs * 3 - 3)))))"

subsection \<open>The exit handler\<close>

definition on_exit :: "string list list \<Rightarrow> nat \<Rightarrow> supervisor \<Rightarrow> sup_error + supervisor" where
  "on_exit alloc pid s =
     (if pid = 0 then Inr s
      else case map_of (workers_writeCollection s) pid of
        Some index \<Rightarrow> spawnWriteCollectionWorker alloc index s
      | None \<Rightarrow>
          if pid = fst (writeRecord s)
          then spawnWriteRecordWorker (kill (snd (writeRecord s)) s)
          else if pid = fst (writeRecord2 s)
          then spawnWriteRecordWorker (kill (snd (writeRecord2 s)) s)
          else if pid \<in> set (workers_repo s) then spawnRepoWorker s
          else Inl (UnknownWorkerKind pid))"

text \<open>
  A worker process ends: the cluster drops it from \<open>cluster.workers\<close> and emits \<open>exit\<close>, which
  runs the handler.
\<close>

definition worker_exits :: "string list list \<Rightarrow> nat \<Rightarrow> supervisor \<Rightarrow> sup_error + supervisor" where
  "worker_exits alloc pid s =
     on_exit alloc pid (s\<lparr>cluster_workers := filter (\<lambda>(i, p, e). p \<noteq> pid) (cluster_workers s)\<rparr>)"

definition live_writeRecord :: "supervisor \<Rightarrow> nat list" where
  "live_writeRecord s = map fst (filter (\<lambda>(i, p, e). e = WriteRecordEnv) (cluster_workers s))"

definition live_writeCollection :: "nat \<Rightarrow> supervisor \<Rightarrow> nat list" where
  "live_writeCollection index s =
     map fst (filter (\<lambda>(i, p, e). e = WriteCollectionEnv index) (cluster_workers s))"

definition live_repo :: "supervisor \<Rightarrow> nat list" where
  "live_repo s = map fst (filter (\<lambda>(i, p, e). e = RepoEnv) (cluster_workers s))"

subsection \<open>The message handler\<close>

text \<open>
  \<open>rnd\<close> is the value of \<open>Math.random()\<close>. The result is the list of \<open>send\<close> calls in order,
  each with the cluster id of the receiving worker, and the error thrown, if any. Calling
  \<open>send\<close> on a worker that is not in \<open>cluster.workers\<close> throws.
\<close>

definition falsy_string :: "string option \<Rightarrow> bool" where
  "falsy_string x = (case x of None \<Rightarrow> True | Some s \<Rightarrow> s = [])"

definition on_message ::
  "real \<Rightarrow> WorkerMessage option \<Rightarrow> supervisor \<Rightarrow> (nat \<times> WorkerMessage) list \<times> sup_error option"
where
  "on_message rnd message s =
     (case message of
        None \<Rightarrow> ([], Some InvalidWorkerMessage)
      | Some m \<Rightarrow>
          if msg_type m \<noteq> Some ''commit'' \<or> falsy_string (collection m) \<or> commits m = None
          then ([], Some InvalidWorkerMessage)
          else if the (commits m) = [] then ([], None)
          else (case map_of (collectionToWriteWorkerId s) (the (collection m)) of
                  None \<Rightarrow> ([], None)
                | Some writeCollectionWorkerId \<Rightarrow>
                    (let writeRecordWorkerId =
                           (if rnd < 0.5 then snd (writeRecord s) else snd (writeRecord2 s))
                     in case map_of (cluster_workers s) writeRecordWorkerId of
                          None \<Rightarrow> ([], Some SendOnUndefined)
                        | Some _ \<Rightarrow>
                            (case map_of (cluster_workers s) writeCollectionWorkerId of
                               None \<Rightarrow> ([(writeRecordWorkerId, m)], Some SendOnUndefined)
                             | Some _ \<Rightarrow>
                                 ([(writeRecordWorkerId, m), (writeCollectionWorkerId, m)], None)))))"

section \<open>Example inputs\<close>

text \<open>
  Networks: one on which every call fails with an error that is neither an \<open>XRPCError\<close> nor a
  \<open>TypeError\<close>, one on which no connection can be made, and servers that answer every call
  with status 500, with status 429, with the protocol error \<open>RepoNotFound\<close>, or with success.
\<close>

definition always_other :: "nat \<Rightarrow> error + XRPCResponse" where
  "always_other n = Inl (OtherError ''Error'')"

definition zero_clock :: "nat \<Rightarrow> int" where
  "zero_clock n = 0"



definition example_alloc :: "string list list" where
  "example_alloc = [[''app.bsky.feed.post''], [''app.bsky.feed.like''], [''app.bsky.graph.follow'']]"




definition not_found :: "nat \<Rightarrow> error + XRPCResponse" where
  "not_found n = Inl (XRPCError 400 ''RepoNotFound'' [])"

definition unreachable :: "nat \<Rightarrow> error + XRPCResponse" where
  "unreachable n = Inl TypeError"

definition example_store :: store where
  "example_store =
     \<lparr>files = [''did:plc:alice'' \<mapsto> [1, 2, 3]], jobs = [], seen = {}, unlinks = []\<rparr>"

text \<open>
  Stand-ins for the libraries: a date parser that knows two dates (the Unix epoch is
  time 0), and a record-key parser that knows one key; the library reads the first eleven
  characters of a key as a number in base 32, which for this key is 1695696350982574.
\<close>

definition example_parseDate :: "string \<Rightarrow> int option" where
  "example_parseDate s =
     (if s = ''1970-01-01T00:00:00.000Z'' then Some 0
      else if s = ''2023-11-14T22:13:20.000Z'' then Some 1700000000000
      else None)"

definition example_parseTID :: "string \<Rightarrow> int option" where
  "example_parseTID k = (if k = ''3kabcdefghijk'' then Some 1695696350982574 else None)"

definition example_entry :: repo_entry where
  "example_entry =
     \<lparr>entry_record = JObj [(''createdAt'', JStr ''2023-11-14T22:13:20.000Z'')],
      entry_rkey = ''3kabcdefghijk'',
      entry_collection = ''app.bsky.feed.post'',
      entry_cid = ''bafyreib2rxk3rh6kzwq''\<rparr>"

text \<open>A repository whose iteration yields one record and then throws, and one that finishes.\<close>

definition broken_repo :: "nat list \<Rightarrow> repo_entry list \<times> bool" where
  "broken_repo bytes = ([example_entry], False)"

definition sound_repo :: "nat list \<Rightarrow> repo_entry list \<times> bool" where
  "sound_repo bytes = ([example_entry], True)"

definition example_ext :: "(nat list \<Rightarrow> repo_entry list \<times> bool) \<Rightarrow> externals" where
  "example_ext it =
     \<lparr>parseDate = example_parseDate, parseTID = example_parseTID, iterateAtpRepo = it,
      sAdd_ok = True\<rparr>"

definition example_commit :: CommitData where
  "example_commit =
     \<lparr>uri = ''at://did:plc:alice/app.bsky.feed.post/3kabcdefghijk'',
      cid = ''bafyreib2rxk3rh6kzwq'',
      timestamp = 1700000000000,
      obj = JObj [(''createdAt'', JStr ''2023-11-14T22:13:20.000Z'')]\<rparr>"

text \<open>The supervisor after its start on two CPUs, with process ids from 100.\<close>

definition example_supervisor :: supervisor where
  "example_supervisor =
     \<lparr>cluster_workers =
        [(1, 100, WriteCollectionEnv 0), (2, 101, WriteCollectionEnv 1),
         (3, 102, WriteCollectionEnv 2), (4, 103, WriteRecordEnv), (5, 104, WriteRecordEnv),
         (6, 105, RepoEnv), (7, 106, RepoEnv), (8, 107, RepoEnv)],
      next_id = 9, next_pid = 108, workers_repo = [107, 106, 105],
      workers_writeCollection = [(100, 0), (101, 1), (102, 2)],
      writeRecord = (103, 4), writeRecord2 = (104, 5),
      collectionToWriteWorkerId =
        [(''app.bsky.feed.post'', 1), (''app.bsky.feed.like'', 2), (''app.bsky.graph.follow'', 3)]\<rparr>"

definition post_batch :: WorkerMessage where
  "post_batch = \<lparr>msg_type = Some ''commit'', collection = Some ''app.bsky.feed.post'',
                  commits = Some [example_commit]\<rparr>"





section \<open>Properties of the fetch client\<close>




subsection \<open>Integers that a double holds exactly\<close>



subsection \<open>How many times a request is tried\<close>









subsection \<open>The backoff ladder\<close>

lemma backoff_ladder:
  "n \<le> 6 \<Longrightarrow> backoff_or_default n = [1000, 5000, 15000, 30000, 60000, 120000, 300000] ! n"
proof -
  assume "n \<le> 6"
  then consider "n = 0" | "n = 1" | "n = 2" | "n = 3" | "n = 4" | "n = 5" | "n = 6"
    by linarith
  then show ?thesis
    by cases (simp_all add: backoff_or_default_def backoffs_def)
qed

text \<open>
  C3, as amended. The ladder is for a failure that is neither an \<open>XRPCError\<close> nor a
  \<open>TypeError\<close>. When the call with attempt number \<open>n\<close> (counted from 0) fails so: for
  \<open>n \<le> 6\<close> the client sleeps entry \<open>n\<close> of the ladder 1, 5, 15, 30, 60, 120, 300 seconds and
  then runs attempt \<open>n + 1\<close>, whose result is the result; for \<open>n > 6\<close> it sleeps nothing,
  retries nothing and throws the error. A \<open>TypeError\<close>, which is what a failure of the
  network itself arrives as, is thrown at once at every attempt number, with no sleep and no
  retry.
\<close>

theorem failure_backoff:
  "(net n = Inl (OtherError m) \<and> n \<le> 6 \<longrightarrow>
        request net clock n =
          (Attempt n # Sleep (Num ([1000, 5000, 15000, 30000, 60000, 120000, 300000] ! n))
             # fst (request net clock (Suc n)),
           snd (request net clock (Suc n))))
   \<and> (net n = Inl (OtherError m) \<and> 6 < n \<longrightarrow>
        request net clock n = ([Attempt n], Inl (OtherError m)))
   \<and> (net n = Inl TypeError \<longrightarrow> request net clock n = ([Attempt n], Inl TypeError))"
  by (simp add: request.simps [of net clock n] backoff_ladder case_prod_beta)

theorem failure_backoff_witness:
  "always_other 0 = Inl (OtherError ''Error'') \<and> (0::nat) \<le> 6
   \<and> request always_other zero_clock 0 =
       (Attempt 0 # Sleep (Num 1000) # fst (request always_other zero_clock (Suc 0)),
        snd (request always_other zero_clock (Suc 0)))
   \<and> always_other 7 = Inl (OtherError ''Error'') \<and> (6::nat) < 7
   \<and> request always_other zero_clock 7 = ([Attempt 7], Inl (OtherError ''Error''))
   \<and> unreachable 0 = Inl TypeError
   \<and> request unreachable zero_clock 0 = ([Attempt 0], Inl TypeError)"
  using failure_backoff [of always_other 0 "''Error''" zero_clock]
    failure_backoff [of always_other 7 "''Error''" zero_clock]
    failure_backoff [of unreachable 0 _ zero_clock]
  by (simp add: always_other_def unreachable_def)

text \<open>
  C3 as stated fails twice. A failure of the network, such as a connection reset, reaches the
  client as a \<open>TypeError\<close> and is thrown at once, with no sleep, at attempt number 0 already.
  And a failure that does climb the ladder is thrown at once at attempt number 7, the first
  number with no ladder entry: no 300 second sleep happens, and the value the source falls
  back to for a missing entry is 60 seconds.
\<close>

theorem failure_past_ladder_counterexample:
  "request unreachable zero_clock 0 = ([Attempt 0], Inl TypeError)
   \<and> request always_other zero_clock 7 = ([Attempt 7], Inl (OtherError ''Error''))
   \<and> Sleep (Num 300000) \<notin> set (fst (request always_other zero_clock 7))
   \<and> backoff_or_default 7 = 60000"
  by (simp add: request.simps [of always_other zero_clock 7]
      request.simps [of unreachable zero_clock 0] always_other_def unreachable_def
      backoff_or_default_def backoffs_def)

subsection \<open>The rate-limit wait\<close>

lemma num_times_1000_NaN: "isNaN (num_times r 1000) = (r = NaN)"
  by (cases r) (simp_all add: isNaN_def number_of_int_def Let_def)


lemma num_gt_not_NaN: "num_gt x k \<Longrightarrow> x \<noteq> NaN"
  by (cases x) simp_all

lemma num_plus_NaN: "(num_plus x k = NaN) = (x = NaN)"
  by (cases x) (simp_all add: number_of_int_def Let_def)

lemma waitTime_NaN:
  "(num_plus (num_minus (num_times r 1000) now) 1000 = NaN) = (r = NaN)"
  using num_times_1000_NaN [of r] by (simp add: num_plus_NaN num_minus_def isNaN_def)








section \<open>Properties of the fetch scheduler\<close>

text \<open>
  Whatever error the fetch ends in, \<open>queueRepo\<close> changes nothing: the name that it compares
  with the three protocol names is \<open>XRPCError\<close> for every \<open>XRPCError\<close>.
\<close>

lemma queueRepo_failure_unchanged:
  "snd (request net clock 0) = Inl err \<Longrightarrow> queueRepo net clock write_ok save_ok did s = s"
  by (cases err) (simp_all add: queueRepo_def terminal_names_def)

text \<open>
  C7 at a fetch that the server answers with the protocol error \<open>RepoNotFound\<close>. The error
  reaches \<open>queueRepo\<close> unchanged after one attempt, its \<open>kind\<close> is \<open>RepoNotFound\<close> and its
  \<open>name\<close> is \<open>XRPCError\<close>; the test on \<open>err.name\<close> fails, and the DID is not added to the
  seen-set.
\<close>

theorem queueRepo_terminal_error_not_seen:
  "request not_found zero_clock 0 = ([Attempt 0], Inl (XRPCError 400 ''RepoNotFound'' []))
   \<and> kind (XRPCError 400 ''RepoNotFound'' []) = ''RepoNotFound''
   \<and> name (XRPCError 400 ''RepoNotFound'' []) = ''XRPCError''
   \<and> queueRepo not_found zero_clock True True ''did:plc:bob'' example_store = example_store
   \<and> ''did:plc:bob'' \<notin> seen (queueRepo not_found zero_clock True True ''did:plc:bob'' example_store)"
  by (simp add: queueRepo_def terminal_names_def request.simps [of not_found zero_clock 0]
      not_found_def example_store_def)

section \<open>Properties of the repo worker\<close>

subsection \<open>The snapshot file\<close>

text \<open>
  C6. When the job's snapshot file is there and not empty, the handler finishes without an
  error and has called \<open>fs.unlink\<close> on that file exactly once: the file is gone, every other
  file is as before, and the log of \<open>unlink\<close> calls has grown by this one entry. This holds
  for every behaviour of the decoder and of Redis (\<open>ext\<close> is arbitrary), so both when the
  iteration finishes and when it throws.
\<close>

theorem process_job_unlinks_snapshot:
  "files st did = Some repo \<Longrightarrow> repo \<noteq> [] \<Longrightarrow> did \<noteq> [] \<Longrightarrow>
     \<exists>st' buf'. process_job ext True now (Some did) (st, buf) = Inr (st', buf')
       \<and> files st' = (files st)(did := None)
       \<and> unlinks st' = unlinks st @ [did]"
  by (auto simp add: process_job_def unlink_def Let_def case_prod_beta)

theorem process_job_unlinks_snapshot_witness:
  "files example_store ''did:plc:alice'' = Some [1, 2, 3] \<and> [1, 2, 3] \<noteq> ([] :: nat list)
   \<and> ''did:plc:alice'' \<noteq> []
   \<and> (\<exists>st' buf'.
        process_job (example_ext broken_repo) True 1800000000000 (Some ''did:plc:alice'')
          (example_store, []) = Inr (st', buf')
        \<and> files st' = (files example_store)(''did:plc:alice'' := None)
        \<and> unlinks st' = unlinks example_store @ [''did:plc:alice''])
   \<and> (\<exists>st' buf'.
        process_job (example_ext sound_repo) True 1800000000000 (Some ''did:plc:alice'')
          (example_store, []) = Inr (st', buf')
        \<and> files st' = (files example_store)(''did:plc:alice'' := None)
        \<and> unlinks st' = unlinks example_store @ [''did:plc:alice''])"
proof -
  have h1: "files example_store ''did:plc:alice'' = Some [1, 2, 3]"
    by (simp add: example_store_def)
  have h2: "[1, 2, 3] \<noteq> ([] :: nat list)"
    by simp
  have h3: "''did:plc:alice'' \<noteq> []"
    by simp
  show ?thesis
    using h1 h2 h3
      process_job_unlinks_snapshot [OF h1 h2 h3, of "example_ext broken_repo" 1800000000000 "[]"]
      process_job_unlinks_snapshot [OF h1 h2 h3, of "example_ext sound_repo" 1800000000000 "[]"]
    by simp
qed

subsection \<open>The timestamp\<close>

text \<open>
  What \<open>indexedAt\<close> computes: never more than \<open>now\<close>; the time of \<open>createdAt\<close> when that is
  not 0; otherwise the time in the record key when it parses; otherwise \<open>now\<close>.
\<close>

lemma indexedAt_le_now: "indexedAt pd pt now record rkey \<le> now"
  by (simp add: indexedAt_def Let_def)

lemma indexedAt_createdAt:
  "createdAt_time pd record \<noteq> 0 \<Longrightarrow>
     indexedAt pd pt now record rkey = min (createdAt_time pd record) now"
  by (simp add: indexedAt_def Let_def min_def)

lemma indexedAt_rkey:
  "createdAt_time pd record = 0 \<Longrightarrow> pt rkey = Some t \<Longrightarrow>
     indexedAt pd pt now record rkey = min t now"
  by (simp add: indexedAt_def Let_def min_def)

lemma indexedAt_now:
  "createdAt_time pd record = 0 \<Longrightarrow> pt rkey = None \<Longrightarrow> indexedAt pd pt now record rkey = now"
  by (simp add: indexedAt_def Let_def)

lemma createdAt_time_parsed:
  "map_of kvs ''createdAt'' = Some (JStr s) \<Longrightarrow> pd s = Some t \<Longrightarrow>
     createdAt_time pd (JObj kvs) = t"
  by (simp add: createdAt_time_def)

text \<open>
  C8 at a record whose \<open>createdAt\<close> is the Unix epoch. The field is there and parses (to
  time 0, which is not in the future), yet the timestamp does not come from it: the source
  tests the parsed time for truthiness, 0 is falsy, and so the time in the record key is
  taken, which here lies past \<open>now\<close> and is clamped to \<open>now\<close>.
\<close>

theorem indexedAt_epoch_createdAt:
  "example_parseDate ''1970-01-01T00:00:00.000Z'' = Some 0
   \<and> example_parseTID ''3kabcdefghijk'' = Some 1695696350982574
   \<and> indexedAt example_parseDate example_parseTID 1800000000000
       (JObj [(''createdAt'', JStr ''1970-01-01T00:00:00.000Z'')]) ''3kabcdefghijk''
     = 1800000000000"
  by (simp add: indexedAt_def createdAt_time_def example_parseDate_def example_parseTID_def)

subsection \<open>The periodic emission\<close>

lemma decode_example_entry:
  "decode_entry example_parseDate example_parseTID 1800000000000 ''did:plc:alice'' example_entry
     = example_commit"
  by (simp add: decode_entry_def example_entry_def example_commit_def indexedAt_def
      createdAt_time_def example_parseDate_def)

lemma process_job_example:
  "map_sum id snd
     (process_job (example_ext sound_repo) True 1800000000000 (Some ''did:plc:alice'')
        (example_store, []))
   = Inr [(''app.bsky.feed.post'', [example_commit])]"
  by (simp add: process_job_def example_ext_def sound_repo_def example_store_def unlink_def
      decode_example_entry push_commit_def object_prototype_members_def)
    (simp add: example_entry_def)

lemma sendCommits_keeps_buffers: "snd (sendCommits commitData) = commitData"
  by (simp add: sendCommits_def)

text \<open>
  C1 at the buffers that one decoded post leaves behind (\<open>process_job_example\<close>). The first
  tick sends the record; with nothing appended in between, the second tick sends it again.
\<close>

theorem sendCommits_sends_again:
  "fst (sendCommits [(''app.bsky.feed.post'', [example_commit])]) =
     [\<lparr>msg_type = Some ''commit'', collection = Some ''app.bsky.feed.post'',
       commits = Some [example_commit]\<rparr>]
   \<and> fst (sendCommits (snd (sendCommits [(''app.bsky.feed.post'', [example_commit])]))) =
     [\<lparr>msg_type = Some ''commit'', collection = Some ''app.bsky.feed.post'',
       commits = Some [example_commit]\<rparr>]"
  by (simp add: sendCommits_def Object_entries_def array_index_def)

section \<open>Properties of the supervisor\<close>

lemmas spawn_defs = spawnWriteCollectionWorker_def spawnWriteRecordWorker_def spawnRepoWorker_def
  fork_def kill_def and_then_def

lemma startup_example: "startup example_alloc 2 100 = Inr example_supervisor"
  by (simp add: startup_def example_alloc_def example_supervisor_def spawn_defs numeral_eq_Suc)

subsection \<open>Worker exits\<close>

lemma map_of_fold_update:
  "map_of (fold (\<lambda>c m. AList.update c w m) cs m0) c = (if c \<in> set cs then Some w else map_of m0 c)"
  by (induction cs arbitrary: m0) (auto simp add: update_conv')

text \<open>
  The exit of a write-collection worker: one worker is forked, with the slot index of the
  one that ended, and the collections of that slot are routed to it. The exit of a repo
  worker: one repo worker is forked.
\<close>

lemma on_exit_writeCollection:
  assumes "pid \<noteq> 0" "map_of (workers_writeCollection s) pid = Some i"
    and "i < length alloc" "next_pid s \<noteq> 0"
  shows "\<exists>s'. on_exit alloc pid s = Inr s'
     \<and> cluster_workers s' = cluster_workers s @ [(next_id s, next_pid s, WriteCollectionEnv i)]
     \<and> map_of (workers_writeCollection s') (next_pid s) = Some i
     \<and> (\<forall>c. map_of (collectionToWriteWorkerId s') c =
              (if c \<in> set (alloc ! i) then Some (next_id s)
               else map_of (collectionToWriteWorkerId s) c))"
  using assms
  by (simp add: on_exit_def spawnWriteCollectionWorker_def fork_def map_of_fold_update update_conv')

lemma on_exit_repo:
  assumes "pid \<noteq> 0" "map_of (workers_writeCollection s) pid = None"
    and "pid \<noteq> fst (writeRecord s)" "pid \<noteq> fst (writeRecord2 s)"
    and "pid \<in> set (workers_repo s)" "next_pid s \<noteq> 0"
  shows "\<exists>s'. on_exit alloc pid s = Inr s'
     \<and> cluster_workers s' = cluster_workers s @ [(next_id s, next_pid s, RepoEnv)]
     \<and> next_pid s \<in> set (workers_repo s')"
  using assms by (simp add: on_exit_def spawnRepoWorker_def fork_def)

text \<open>
  C4 at the exit of the first write-record worker. After the start the live write-record
  workers are those with cluster ids 4 and 5. When the process of worker 4 (process id 103)
  ends, the handler forks two workers, 9 and 10, and records them in both tables; worker 5 is
  still running and is in neither table any more, so three write-record workers are live.
  When the process of worker 5 (process id 104) ends later, the handler knows no worker with
  that process id and throws.
\<close>

theorem writeRecord_exit_leaves_three_live:
  "map_sum id live_writeRecord (startup example_alloc 2 100) = Inr [4, 5]
   \<and> map_sum id writeRecord (startup example_alloc 2 100) = Inr (103, 4)
   \<and> map_sum id live_writeRecord
       (and_then (startup example_alloc 2 100) (worker_exits example_alloc 103)) = Inr [5, 9, 10]
   \<and> map_sum id writeRecord
       (and_then (startup example_alloc 2 100) (worker_exits example_alloc 103)) = Inr (108, 9)
   \<and> map_sum id writeRecord2
       (and_then (startup example_alloc 2 100) (worker_exits example_alloc 103)) = Inr (109, 10)
   \<and> and_then (and_then (startup example_alloc 2 100) (worker_exits example_alloc 103))
       (worker_exits example_alloc 104) = Inl (UnknownWorkerKind 104)"
  by (simp add: startup_example example_supervisor_def live_writeRecord_def worker_exits_def
      on_exit_def spawn_defs)

subsection \<open>Routing a record batch\<close>

text \<open>
  C9. A message is malformed when it is missing, when its type is not \<open>commit\<close>, when its
  collection is missing (the source's test \<open>!message.collection\<close>, which the empty string
  meets too) or when its commits list is missing; the handler then throws. A well-formed
  message with an empty commits list causes no send and no error; so does a well-formed
  message with commits whose collection is not in the route table. Otherwise, with the
  workers in question alive, the handler sends the message as it is exactly twice: first to
  the write-record worker chosen by the random number (the first of the pair when it is below
  one half, the second otherwise), then to the write-collection worker of the route table.
\<close>

theorem on_message_cases:
  "on_message rnd None s = ([], Some InvalidWorkerMessage)
   \<and> (msg_type m \<noteq> Some ''commit'' \<or> collection m = None \<or> collection m = Some []
        \<or> commits m = None \<longrightarrow>
        on_message rnd (Some m) s = ([], Some InvalidWorkerMessage))
   \<and> (msg_type m = Some ''commit'' \<and> collection m = Some c \<and> c \<noteq> [] \<and> commits m = Some [] \<longrightarrow>
        on_message rnd (Some m) s = ([], None))
   \<and> (msg_type m = Some ''commit'' \<and> collection m = Some c \<and> c \<noteq> [] \<and> commits m = Some cs
        \<and> cs \<noteq> [] \<and> map_of (collectionToWriteWorkerId s) c = None \<longrightarrow>
        on_message rnd (Some m) s = ([], None))
   \<and> (msg_type m = Some ''commit'' \<and> collection m = Some c \<and> c \<noteq> [] \<and> commits m = Some cs
        \<and> cs \<noteq> [] \<and> map_of (collectionToWriteWorkerId s) c = Some w
        \<and> map_of (cluster_workers s) w \<noteq> None
        \<and> map_of (cluster_workers s)
            (if rnd < 1 / 2 then snd (writeRecord s) else snd (writeRecord2 s)) \<noteq> None \<longrightarrow>
        on_message rnd (Some m) s =
          ([(if rnd < 1 / 2 then snd (writeRecord s) else snd (writeRecord2 s), m), (w, m)], None))"
proof (intro conjI impI)
  show "on_message rnd None s = ([], Some InvalidWorkerMessage)"
    by (simp add: on_message_def)
next
  assume "msg_type m \<noteq> Some ''commit'' \<or> collection m = None \<or> collection m = Some []
        \<or> commits m = None"
  then have "msg_type m \<noteq> Some ''commit'' \<or> falsy_string (collection m) \<or> commits m = None"
    by (auto simp add: falsy_string_def)
  then show "on_message rnd (Some m) s = ([], Some InvalidWorkerMessage)"
    by (simp add: on_message_def)
next
  assume "msg_type m = Some ''commit'' \<and> collection m = Some c \<and> c \<noteq> [] \<and> commits m = Some []"
  then show "on_message rnd (Some m) s = ([], None)"
    by (simp add: on_message_def falsy_string_def)
next
  assume "msg_type m = Some ''commit'' \<and> collection m = Some c \<and> c \<noteq> [] \<and> commits m = Some cs
        \<and> cs \<noteq> [] \<and> map_of (collectionToWriteWorkerId s) c = None"
  then show "on_message rnd (Some m) s = ([], None)"
    by (simp add: on_message_def falsy_string_def)
next
  assume "msg_type m = Some ''commit'' \<and> collection m = Some c \<and> c \<noteq> [] \<and> commits m = Some cs
        \<and> cs \<noteq> [] \<and> map_of (collectionToWriteWorkerId s) c = Some w
        \<and> map_of (cluster_workers s) w \<noteq> None
        \<and> map_of (cluster_workers s)
            (if rnd < 1 / 2 then snd (writeRecord s) else snd (writeRecord2 s)) \<noteq> None"
  then show "on_message rnd (Some m) s =
          ([(if rnd < 1 / 2 then snd (writeRecord s) else snd (writeRecord2 s), m), (w, m)], None)"
    by (auto simp add: on_message_def falsy_string_def Let_def)
qed

theorem on_message_cases_witness:
  "on_message (1 / 4) None example_supervisor = ([], Some InvalidWorkerMessage)
   \<and> commits (post_batch\<lparr>commits := None\<rparr>) = None
   \<and> on_message (1 / 4) (Some (post_batch\<lparr>commits := None\<rparr>)) example_supervisor =
       ([], Some InvalidWorkerMessage)
   \<and> on_message (1 / 4) (Some (post_batch\<lparr>commits := Some []\<rparr>)) example_supervisor = ([], None)
   \<and> map_of (collectionToWriteWorkerId example_supervisor) ''com.whtwnd.blog.entry'' = None
   \<and> on_message (1 / 4) (Some (post_batch\<lparr>collection := Some ''com.whtwnd.blog.entry''\<rparr>))
       example_supervisor = ([], None)
   \<and> map_of (collectionToWriteWorkerId example_supervisor) ''app.bsky.feed.post'' = Some 1
   \<and> map_of (cluster_workers example_supervisor) 1 \<noteq> None
   \<and> map_of (cluster_workers example_supervisor) (snd (writeRecord example_supervisor)) \<noteq> None
   \<and> map_of (cluster_workers example_supervisor) (snd (writeRecord2 example_supervisor)) \<noteq> None
   \<and> on_message (1 / 4) (Some post_batch) example_supervisor =
       ([(4, post_batch), (1, post_batch)], None)
   \<and> on_message (3 / 4) (Some post_batch) example_supervisor =
       ([(5, post_batch), (1, post_batch)], None)"
proof -
  have h1: "map_of (collectionToWriteWorkerId example_supervisor) ''com.whtwnd.blog.entry'' = None"
    by (simp add: example_supervisor_def)
  have h2: "map_of (collectionToWriteWorkerId example_supervisor) ''app.bsky.feed.post'' = Some 1"
    by (simp add: example_supervisor_def)
  have h3: "map_of (cluster_workers example_supervisor) 1 \<noteq> None"
    "map_of (cluster_workers example_supervisor) (snd (writeRecord example_supervisor)) \<noteq> None"
    "map_of (cluster_workers example_supervisor) (snd (writeRecord2 example_supervisor)) \<noteq> None"
    "snd (writeRecord example_supervisor) = 4" "snd (writeRecord2 example_supervisor) = 5"
    by (simp_all add: example_supervisor_def)
  show ?thesis
    using h1 h2 h3
      on_message_cases [of "1 / 4" example_supervisor "post_batch\<lparr>commits := None\<rparr>"]
      on_message_cases [of "1 / 4" example_supervisor "post_batch\<lparr>commits := Some []\<rparr>"
        "''app.bsky.feed.post''"]
      on_message_cases [of "1 / 4" example_supervisor
        "post_batch\<lparr>collection := Some ''com.whtwnd.blog.entry''\<rparr>" "''com.whtwnd.blog.entry''"
        "[example_commit]"]
      on_message_cases [of "1 / 4" example_supervisor post_batch "''app.bsky.feed.post''"
        "[example_commit]" 1]
      on_message_cases [of "3 / 4" example_supervisor post_batch "''app.bsky.feed.post''"
        "[example_commit]" 1]
    by (simp add: post_batch_def)
qed

end
